theory Spec2Isabelle
  imports Main
begin

section \<open>The Unify chat target of PyRIT\<close>

text \<open>
  A shallow embedding of \<^verbatim>\<open>pyrit/prompt_target/prompt_chat_target/unify_chat_target.py\<close>:
  the class \<^verbatim>\<open>UnifyChatTarget\<close> with its constructor, \<^verbatim>\<open>send_prompt_async\<close> and
  \<^verbatim>\<open>_validate_request\<close>. The collaborators the class calls (the memory interface, the
  Unify client, the base class constructor, the request piece's \<^verbatim>\<open>to_chat_message\<close>)
  live outside that file; they are parameters of the model, each one a function that
  either returns or raises. A leading underscore of a Python name is dropped, since an
  Isabelle name cannot start with one.
\<close>

subsection \<open>Exceptions\<close>

text \<open>
  \<^verbatim>\<open>ValueError\<close> is what the file itself raises; \<^verbatim>\<open>IndexError\<close> is what
  \<^verbatim>\<open>request_pieces[0]\<close> raises on an empty list; \<^verbatim>\<open>Raised\<close> stands for any other
  exception a collaborator may raise (a network failure, an API error).
\<close>

datatype exn = ValueError string | IndexError string | Raised string

subsection \<open>The request and response objects\<close>

record PromptRequestPiece =
  role :: string
  conversation_id :: string
  original_value :: string
  converted_value :: string
  converted_value_data_type :: string
  prompt_target_identifier :: "(string \<times> string) list"

record PromptRequestResponse =
  request_pieces :: "PromptRequestPiece list"

record ChatMessage =
  chat_role :: string
  content :: string

text \<open>
  Modelled from the spec: \<^verbatim>\<open>construct_response_from_request\<close> of \<^verbatim>\<open>pyrit.models\<close> is not
  among the sources. The spec's output contract is "a response object wrapping the
  returned text against the input piece", so the response keeps exactly the two
  arguments of the call: the originating request piece and the response text pieces.
\<close>

record Response =
  request :: PromptRequestPiece
  response_text_pieces :: "string list"

definition construct_response_from_request ::
  "PromptRequestPiece \<Rightarrow> string list \<Rightarrow> Response" where
  "construct_response_from_request req texts =
     \<lparr>request = req, response_text_pieces = texts\<rparr>"

subsection \<open>The world the adapter acts on\<close>

text \<open>
  Python lists are mutable objects: \<^verbatim>\<open>messages.append(...)\<close> changes the very list the
  memory interface handed out. The heap maps the address of a list object to its
  contents, so that a store returning one of its own lists and a store returning a
  fresh copy are both instances of the model. Beside the heap, the world records the
  calls the adapter issues to its collaborators and to the logger, oldest first.
\<close>

type_synonym addr = nat

type_synonym heap = "addr \<Rightarrow> ChatMessage list"

datatype call =
    GetChatMessages string
  | LogSending PromptRequestPiece
  | UnifyGenerate string "ChatMessage list"
  | LogReceived string

record world =
  heap :: heap
  calls :: "call list"

fun is_memory_call :: "call \<Rightarrow> bool" where
  "is_memory_call (GetChatMessages _) = True"
| "is_memory_call _ = False"

fun is_generate_call :: "call \<Rightarrow> bool" where
  "is_generate_call (UnifyGenerate _ _) = True"
| "is_generate_call _ = False"

definition new_calls :: "world \<Rightarrow> world \<Rightarrow> call list" where
  "new_calls w w' = drop (length (calls w)) (calls w')"

subsection \<open>The collaborators\<close>

text \<open>
  \<^verbatim>\<open>get_chat_messages_with_conversation_id\<close> returns the address of a list of chat
  messages and the heap as the store left it (it may have allocated the list), or
  raises. \<^verbatim>\<open>generate\<close> stands for the awaited call
  \<^verbatim>\<open>await self.unify_client.generate(model=..., messages=...)\<close>: it returns the text or
  raises.
\<close>

record MemoryInterface =
  get_chat_messages_with_conversation_id :: "string \<Rightarrow> heap \<Rightarrow> exn + (addr \<times> heap)"

record Unify =
  generate :: "string \<Rightarrow> ChatMessage list \<Rightarrow> exn + string"

datatype ChatMessageNormalizer = ChatMessageNop | OtherNormalizer string

text \<open>
  The host framework: the base class constructor \<^verbatim>\<open>PromptChatTarget.__init__\<close>, which
  yields the memory interface kept in \<^verbatim>\<open>self._memory\<close>; the constructor of the Unify
  client; and \<^verbatim>\<open>PromptRequestPiece.to_chat_message\<close>.
\<close>

record host =
  PromptChatTarget_init :: "MemoryInterface option \<Rightarrow> exn + MemoryInterface"
  Unify_init :: "string \<Rightarrow> exn + Unify"
  to_chat_message :: "PromptRequestPiece \<Rightarrow> exn + ChatMessage"

subsection \<open>The adapter\<close>

record UnifyChatTarget =
  memory :: MemoryInterface
  api_key :: string
  chat_message_normalizer :: ChatMessageNormalizer
  model_name :: string
  unify_client :: Unify

definition API_KEY_ENVIRONMENT_VARIABLE :: string where
  "API_KEY_ENVIRONMENT_VARIABLE = ''UNIFY_API_KEY''"

text \<open>
  Python's truth value of an optional string, as \<^verbatim>\<open>api_key or ...\<close> tests it:
  \<^verbatim>\<open>None\<close> and the empty string are false.
\<close>

definition truthy :: "string option \<Rightarrow> bool" where
  "truthy v = (case v of None \<Rightarrow> False | Some s \<Rightarrow> s \<noteq> [])"

text \<open>
  Python's \<^verbatim>\<open>a or b\<close> on an optional string \<open>a\<close>: \<open>a\<close> itself when it is true
  (neither \<^verbatim>\<open>None\<close> nor empty), the value of \<open>b\<close> otherwise.
\<close>

definition py_or :: "string option \<Rightarrow> exn + string \<Rightarrow> exn + string" where
  "py_or a b = (case a of None \<Rightarrow> b | Some s \<Rightarrow> if s \<noteq> [] then Inr s else b)"

text \<open>
  Modelled from the spec: \<^verbatim>\<open>default_values.get_required_value\<close> of \<^verbatim>\<open>pyrit.common\<close> is
  not among the sources. The spec asks for a credential "explicit or sourced from a
  named environment variable" and a configuration error "if no credential is
  available from either source"; the constructor's docstring names the error:
  \<^verbatim>\<open>ValueError\<close>. The text of the message is not fixed by the spec. The process
  environment is a map from variable names to values.
\<close>

definition get_required_value ::
  "(string \<rightharpoonup> string) \<Rightarrow> string \<Rightarrow> string option \<Rightarrow> exn + string" where
  "get_required_value environ env_var_name passed_value =
     py_or passed_value
       (py_or (environ env_var_name)
          (Inl (ValueError (''Environment variable '' @ env_var_name @ '' is required''))))"

text \<open>
  The constructor. Every argument is keyword-only with a default, so each is optional:
  \<open>None\<close> is an argument the caller left out. \<^verbatim>\<open>**kwargs\<close> is accepted and dropped.
\<close>

definition UnifyChatTarget_init ::
  "host \<Rightarrow> (string \<rightharpoonup> string) \<Rightarrow> string option \<Rightarrow> ChatMessageNormalizer option \<Rightarrow>
   MemoryInterface option \<Rightarrow> string option \<Rightarrow> (string \<times> string) list \<Rightarrow>
   exn + UnifyChatTarget" where
  "UnifyChatTarget_init H environ api_key_arg normalizer_arg memory_arg model_name_arg kwargs =
     (case PromptChatTarget_init H memory_arg of
        Inl e \<Rightarrow> Inl e
      | Inr mem \<Rightarrow>
     (case py_or api_key_arg
             (get_required_value environ API_KEY_ENVIRONMENT_VARIABLE api_key_arg) of
        Inl e \<Rightarrow> Inl e
      | Inr key \<Rightarrow>
     (case Unify_init H key of
        Inl e \<Rightarrow> Inl e
      | Inr client \<Rightarrow>
          Inr \<lparr>memory = mem,
               api_key = key,
               chat_message_normalizer =
                 (case normalizer_arg of None \<Rightarrow> ChatMessageNop | Some n \<Rightarrow> n),
               model_name =
                 (case model_name_arg of None \<Rightarrow> ''gpt-3.5-turbo'' | Some m \<Rightarrow> m),
               unify_client = client\<rparr>)))"

text \<open>\<^verbatim>\<open>xs[0]\<close>: the first element, or \<^verbatim>\<open>IndexError\<close> on an empty list.\<close>

definition item0 :: "'a list \<Rightarrow> exn + 'a" where
  "item0 xs = (case xs of [] \<Rightarrow> Inl (IndexError ''list index out of range'') | x # _ \<Rightarrow> Inr x)"

definition validate_request :: "PromptRequestResponse \<Rightarrow> exn + unit" where
  "validate_request prompt_request =
     (if length (request_pieces prompt_request) \<noteq> 1
      then Inl (ValueError ''This target only supports a single prompt request piece.'')
      else (case item0 (request_pieces prompt_request) of
              Inl e \<Rightarrow> Inl e
            | Inr p \<Rightarrow>
                if converted_value_data_type p \<noteq> ''text''
                then Inl (ValueError ''This target only supports text prompt input.'')
                else Inr ()))"

text \<open>
  \<^verbatim>\<open>send_prompt_async\<close>, statement by statement. The result is paired with the world as
  the call leaves it, also when it raises: what was done before the exception stays
  done.
\<close>

definition send_prompt_async ::
  "host \<Rightarrow> UnifyChatTarget \<Rightarrow> PromptRequestResponse \<Rightarrow> world \<Rightarrow> (exn + Response) \<times> world" where
  "send_prompt_async H self prompt_request w =
     (case validate_request prompt_request of
        Inl e \<Rightarrow> (Inl e, w)
      | Inr _ \<Rightarrow>
     (case item0 (request_pieces prompt_request) of
        Inl e \<Rightarrow> (Inl e, w)
      | Inr req \<Rightarrow>
     (let w1 = w\<lparr>calls := calls w @ [GetChatMessages (conversation_id req)]\<rparr> in
      case get_chat_messages_with_conversation_id (memory self) (conversation_id req) (heap w1) of
        Inl e \<Rightarrow> (Inl e, w1)
      | Inr (messages, h) \<Rightarrow>
     (let w2 = w1\<lparr>heap := h\<rparr> in
      case to_chat_message H req of
        Inl e \<Rightarrow> (Inl e, w2)
      | Inr m \<Rightarrow>
     (let w3 = w2\<lparr>heap := (heap w2)(messages := heap w2 messages @ [m])\<rparr>;
          w4 = w3\<lparr>calls := calls w3 @ [LogSending req]\<rparr>;
          w5 = w4\<lparr>calls := calls w4 @ [UnifyGenerate (model_name self) (heap w4 messages)]\<rparr> in
      case generate (unify_client self) (model_name self) (heap w5 messages) of
        Inl e \<Rightarrow> (Inl e, w5)
      | Inr resp_text \<Rightarrow>
          (Inr (construct_response_from_request req [resp_text]),
           w5\<lparr>calls := calls w5 @ [LogReceived resp_text]\<rparr>))))))"

subsection \<open>Sample objects\<close>

text \<open>
  Concrete collaborators and requests on which the theorems below are exercised: a
  store whose read copies the list kept at address 0 into a fresh list at address 1,
  a client that answers \<^verbatim>\<open>X\<close>, a client whose call fails, and a host whose
  \<^verbatim>\<open>to_chat_message\<close> takes the role and the converted text of the piece.
\<close>

definition sample_piece :: PromptRequestPiece where
  "sample_piece =
     \<lparr>role = ''user'', conversation_id = ''c1'', original_value = ''Hello'',
      converted_value = ''Hello'', converted_value_data_type = ''text'',
      prompt_target_identifier = []\<rparr>"

definition sample_image_piece :: PromptRequestPiece where
  "sample_image_piece = sample_piece\<lparr>converted_value_data_type := ''image_path''\<rparr>"

definition sample_memory :: MemoryInterface where
  "sample_memory =
     \<lparr>get_chat_messages_with_conversation_id = (\<lambda>cid h. Inr (1, h(1 := h 0)))\<rparr>"

definition sample_client :: Unify where
  "sample_client = \<lparr>generate = (\<lambda>model messages. Inr ''X'')\<rparr>"

definition failing_client :: Unify where
  "failing_client = \<lparr>generate = (\<lambda>model messages. Inl (Raised ''connection reset''))\<rparr>"

definition sample_host :: host where
  "sample_host =
     \<lparr>PromptChatTarget_init = (\<lambda>m. case m of None \<Rightarrow> Inr sample_memory | Some x \<Rightarrow> Inr x),
      Unify_init = (\<lambda>key. Inr sample_client),
      to_chat_message = (\<lambda>p. Inr \<lparr>chat_role = role p, content = converted_value p\<rparr>)\<rparr>"

definition sample_target :: UnifyChatTarget where
  "sample_target =
     \<lparr>memory = sample_memory, api_key = ''k'', chat_message_normalizer = ChatMessageNop,
      model_name = ''gpt-3.5-turbo'', unify_client = sample_client\<rparr>"

definition failing_target :: UnifyChatTarget where
  "failing_target = sample_target\<lparr>unify_client := failing_client\<rparr>"

definition sample_world :: world where
  "sample_world =
     \<lparr>heap = (\<lambda>a. if a = 0 then [\<lparr>chat_role = ''assistant'', content = ''Hi''\<rparr>] else []),
      calls = []\<rparr>"

section \<open>Validation\<close>

lemma validate_request_single_text:
  "request_pieces r = [p] \<Longrightarrow> converted_value_data_type p = ''text'' \<Longrightarrow>
   validate_request r = Inr ()"
  by (simp add: validate_request_def item0_def)

text \<open>
  Claim C3. A prompt request whose number of request pieces is not exactly one (two
  pieces in particular) makes \<^verbatim>\<open>send_prompt_async\<close> fail with the \<^verbatim>\<open>ValueError\<close> of the
  single-piece check.
\<close>

theorem send_prompt_async_rejects_piece_count:
  "length (request_pieces r) \<noteq> 1 \<Longrightarrow>
   fst (send_prompt_async H self r w) =
     Inl (ValueError ''This target only supports a single prompt request piece.'')"
  by (simp add: send_prompt_async_def validate_request_def)

theorem send_prompt_async_rejects_piece_count_witness:
  "length (request_pieces \<lparr>request_pieces = [sample_piece, sample_piece]\<rparr>) \<noteq> 1
   \<and> fst (send_prompt_async sample_host sample_target
            \<lparr>request_pieces = [sample_piece, sample_piece]\<rparr> sample_world) =
       Inl (ValueError ''This target only supports a single prompt request piece.'')"
proof -
  have two: "length (request_pieces \<lparr>request_pieces = [sample_piece, sample_piece]\<rparr>) \<noteq> 1"
    by simp
  from send_prompt_async_rejects_piece_count [OF two] two show ?thesis
    by blast
qed

text \<open>
  Claim C4. A prompt request with exactly one piece whose converted-value data type is
  not text makes \<^verbatim>\<open>send_prompt_async\<close> fail with the \<^verbatim>\<open>ValueError\<close> of the data-type
  check.
\<close>

theorem send_prompt_async_rejects_non_text:
  "request_pieces r = [p] \<Longrightarrow> converted_value_data_type p \<noteq> ''text'' \<Longrightarrow>
   fst (send_prompt_async H self r w) =
     Inl (ValueError ''This target only supports text prompt input.'')"
  by (simp add: send_prompt_async_def validate_request_def item0_def)

theorem send_prompt_async_rejects_non_text_witness:
  "request_pieces \<lparr>request_pieces = [sample_image_piece]\<rparr> = [sample_image_piece]
   \<and> converted_value_data_type sample_image_piece \<noteq> ''text''
   \<and> fst (send_prompt_async sample_host sample_target
            \<lparr>request_pieces = [sample_image_piece]\<rparr> sample_world) =
       Inl (ValueError ''This target only supports text prompt input.'')"
proof -
  have one: "request_pieces \<lparr>request_pieces = [sample_image_piece]\<rparr> = [sample_image_piece]"
    by simp
  have img: "converted_value_data_type sample_image_piece \<noteq> ''text''"
    by (simp add: sample_image_piece_def sample_piece_def)
  from send_prompt_async_rejects_non_text [OF one img] one img show ?thesis
    by blast
qed

text \<open>
  Claim C9. On a request with zero pieces \<^verbatim>\<open>_validate_request\<close> raises the single-piece
  error. The read of index 0 happens only after the piece count was found to be one,
  so on no request does validation end in an \<^verbatim>\<open>IndexError\<close>: it returns, or raises one
  of its two validation errors.
\<close>

theorem validate_request_never_indexes_out_of_range:
  "validate_request \<lparr>request_pieces = []\<rparr> =
     Inl (ValueError ''This target only supports a single prompt request piece.'')
   \<and> validate_request r \<noteq> Inl (IndexError msg)
   \<and> (validate_request r = Inr ()
      \<or> validate_request r =
          Inl (ValueError ''This target only supports a single prompt request piece.'')
      \<or> validate_request r = Inl (ValueError ''This target only supports text prompt input.''))"
  by (cases "request_pieces r") (auto simp: validate_request_def item0_def)

text \<open>
  Claim C10. A request that fails validation (piece count not one, or a single piece
  that is not text) makes \<^verbatim>\<open>send_prompt_async\<close> raise a \<^verbatim>\<open>ValueError\<close> and leave the
  world as it found it: no read of the memory store, no call of the generation
  endpoint, no log record, no change of the heap.
\<close>

theorem send_prompt_async_invalid_no_effect:
  "length (request_pieces r) \<noteq> 1
     \<or> (\<exists>p. request_pieces r = [p] \<and> converted_value_data_type p \<noteq> ''text'') \<Longrightarrow>
   (\<exists>msg. fst (send_prompt_async H self r w) = Inl (ValueError msg))
   \<and> snd (send_prompt_async H self r w) = w
   \<and> new_calls w (snd (send_prompt_async H self r w)) = []"
  by (auto simp: send_prompt_async_def validate_request_def item0_def new_calls_def)

theorem send_prompt_async_invalid_no_effect_witness:
  "request_pieces \<lparr>request_pieces = [sample_image_piece]\<rparr> = [sample_image_piece]
   \<and> converted_value_data_type sample_image_piece \<noteq> ''text''
   \<and> snd (send_prompt_async sample_host sample_target
            \<lparr>request_pieces = [sample_image_piece]\<rparr> sample_world) = sample_world
   \<and> calls (snd (send_prompt_async sample_host sample_target
            \<lparr>request_pieces = [sample_image_piece]\<rparr> sample_world)) = []"
proof -
  have one: "request_pieces \<lparr>request_pieces = [sample_image_piece]\<rparr> = [sample_image_piece]"
    by simp
  have img: "converted_value_data_type sample_image_piece \<noteq> ''text''"
    by (simp add: sample_image_piece_def sample_piece_def)
  have pre: "length (request_pieces \<lparr>request_pieces = [sample_image_piece]\<rparr>) \<noteq> 1
     \<or> (\<exists>p. request_pieces \<lparr>request_pieces = [sample_image_piece]\<rparr> = [p]
            \<and> converted_value_data_type p \<noteq> ''text'')"
    using img by simp
  from send_prompt_async_invalid_no_effect [OF pre, of sample_host sample_target sample_world]
  have "snd (send_prompt_async sample_host sample_target
            \<lparr>request_pieces = [sample_image_piece]\<rparr> sample_world) = sample_world"
    by blast
  with one img show ?thesis
    by (simp add: sample_world_def)
qed


section \<open>Sending a valid request\<close>

text \<open>
  What \<^verbatim>\<open>send_prompt_async\<close> does on a single text piece, once the store has returned
  the list at address \<open>a\<close> in heap \<open>h\<close> and the piece has been turned into the message
  \<open>m\<close>: the list is extended in place, the two calls and the log record are issued, and
  the outcome of the generation call decides the result.
\<close>

lemma send_prompt_async_valid:
  assumes "request_pieces r = [p]"
    and "converted_value_data_type p = ''text''"
    and "get_chat_messages_with_conversation_id (memory self) (conversation_id p) (heap w) = Inr (a, h)"
    and "to_chat_message H p = Inr m"
  shows "send_prompt_async H self r w =
    (case generate (unify_client self) (model_name self) (h a @ [m]) of
       Inl e \<Rightarrow>
         (Inl e,
          w\<lparr>heap := h(a := h a @ [m]),
            calls := calls w @ [GetChatMessages (conversation_id p), LogSending p,
                                UnifyGenerate (model_name self) (h a @ [m])]\<rparr>)
     | Inr resp_text \<Rightarrow>
         (Inr (construct_response_from_request p [resp_text]),
          w\<lparr>heap := h(a := h a @ [m]),
            calls := calls w @ [GetChatMessages (conversation_id p), LogSending p,
                                UnifyGenerate (model_name self) (h a @ [m]),
                                LogReceived resp_text]\<rparr>))"
proof -
  have v: "validate_request r = Inr ()"
    using assms(1,2) by (rule validate_request_single_text)
  have i: "item0 (request_pieces r) = Inr p"
    using assms(1) by (simp add: item0_def)
  show ?thesis
    unfolding send_prompt_async_def
    using assms(3,4) by (simp add: v i Let_def split: sum.splits)
qed

lemma new_calls_append [simp]:
  "new_calls w (w\<lparr>heap := h, calls := calls w @ cs\<rparr>) = cs"
  by (simp add: new_calls_def)

text \<open>
  Claim C1. For a request with exactly one piece whose converted-value data type is
  text, if the generation call returns the text \<open>X\<close>, then \<^verbatim>\<open>send_prompt_async\<close> returns
  the response constructed from the original request piece, whose only response text
  piece is \<open>X\<close>. That the generation call returns means it was reached: the store
  returned the history and the piece was turned into a message.
\<close>

theorem send_prompt_async_wraps_response:
  assumes "request_pieces r = [p]"
    and "converted_value_data_type p = ''text''"
    and "get_chat_messages_with_conversation_id (memory self) (conversation_id p) (heap w) = Inr (a, h)"
    and "to_chat_message H p = Inr m"
    and "generate (unify_client self) (model_name self) (h a @ [m]) = Inr X"
  shows "fst (send_prompt_async H self r w) = Inr (construct_response_from_request p [X])
    \<and> construct_response_from_request p [X] = \<lparr>request = p, response_text_pieces = [X]\<rparr>"
  using assms(5)
  by (simp add: send_prompt_async_valid [OF assms(1-4)] construct_response_from_request_def)

theorem send_prompt_async_wraps_response_witness:
  "fst (send_prompt_async sample_host sample_target \<lparr>request_pieces = [sample_piece]\<rparr>
          sample_world) =
     Inr \<lparr>request = sample_piece, response_text_pieces = [''X'']\<rparr>"
proof -
  have 1: "request_pieces \<lparr>request_pieces = [sample_piece]\<rparr> = [sample_piece]"
    by simp
  have 2: "converted_value_data_type sample_piece = ''text''"
    by (simp add: sample_piece_def)
  have 3: "get_chat_messages_with_conversation_id (memory sample_target)
             (conversation_id sample_piece) (heap sample_world) =
           Inr (1, (heap sample_world)(1 := heap sample_world 0))"
    by (simp add: sample_target_def sample_memory_def)
  have 4: "to_chat_message sample_host sample_piece =
           Inr \<lparr>chat_role = role sample_piece, content = converted_value sample_piece\<rparr>"
    by (simp add: sample_host_def)
  have 5: "generate (unify_client sample_target) (model_name sample_target)
             (((heap sample_world)(1 := heap sample_world 0)) 1 @
              [\<lparr>chat_role = role sample_piece, content = converted_value sample_piece\<rparr>]) =
           Inr ''X''"
    by (simp add: sample_target_def sample_client_def)
  from send_prompt_async_wraps_response [OF 1 2 3 4 5] show ?thesis
    by simp
qed


lemma UnifyChatTarget_init_model_name:
  "UnifyChatTarget_init H environ api_key_arg normalizer_arg memory_arg model_name_arg kwargs
     = Inr self \<Longrightarrow>
   model_name self = (case model_name_arg of None \<Rightarrow> ''gpt-3.5-turbo'' | Some mn \<Rightarrow> mn)"
  by (auto simp: UnifyChatTarget_init_def split: sum.splits)

text \<open>
  Claim C2. For a valid single-piece text request sent through an adapter that the
  constructor built, the generation endpoint is called once, with the model
  identifier fixed at construction and with the message list the store returned for
  the piece's conversation identifier, in its order, followed by the one message
  built from the piece; the outcome of \<^verbatim>\<open>send_prompt_async\<close> is the outcome of that call.
\<close>

theorem send_prompt_async_forwards_history:
  assumes "UnifyChatTarget_init H0 environ api_key_arg normalizer_arg memory_arg
             model_name_arg kwargs = Inr self"
    and "request_pieces r = [p]"
    and "converted_value_data_type p = ''text''"
    and "get_chat_messages_with_conversation_id (memory self) (conversation_id p) (heap w) = Inr (a, h)"
    and "to_chat_message H p = Inr m"
  shows "filter is_generate_call (new_calls w (snd (send_prompt_async H self r w))) =
      [UnifyGenerate (case model_name_arg of None \<Rightarrow> ''gpt-3.5-turbo'' | Some mn \<Rightarrow> mn)
         (h a @ [m])]
    \<and> fst (send_prompt_async H self r w) =
      map_sum id (\<lambda>resp_text. construct_response_from_request p [resp_text])
        (generate (unify_client self)
           (case model_name_arg of None \<Rightarrow> ''gpt-3.5-turbo'' | Some mn \<Rightarrow> mn) (h a @ [m]))"
proof -
  have mn: "model_name self = (case model_name_arg of None \<Rightarrow> ''gpt-3.5-turbo'' | Some mn \<Rightarrow> mn)"
    using assms(1) by (rule UnifyChatTarget_init_model_name)
  show ?thesis
    unfolding mn [symmetric]
    by (simp add: send_prompt_async_valid [OF assms(2-5)] split: sum.splits)
qed

theorem send_prompt_async_forwards_history_witness:
  "UnifyChatTarget_init sample_host Map.empty (Some ''k'') None None (Some ''gpt-4'') [] =
     Inr (sample_target\<lparr>model_name := ''gpt-4''\<rparr>)
   \<and> filter is_generate_call
        (calls (snd (send_prompt_async sample_host (sample_target\<lparr>model_name := ''gpt-4''\<rparr>)
           \<lparr>request_pieces = [sample_piece]\<rparr> sample_world))) =
      [UnifyGenerate ''gpt-4''
         [\<lparr>chat_role = ''assistant'', content = ''Hi''\<rparr>,
          \<lparr>chat_role = ''user'', content = ''Hello''\<rparr>]]"
proof -
  have 0: "UnifyChatTarget_init sample_host Map.empty (Some ''k'') None None (Some ''gpt-4'') [] =
     Inr (sample_target\<lparr>model_name := ''gpt-4''\<rparr>)"
    by (simp add: UnifyChatTarget_init_def sample_host_def sample_target_def py_or_def)
  have 1: "request_pieces \<lparr>request_pieces = [sample_piece]\<rparr> = [sample_piece]"
    by simp
  have 2: "converted_value_data_type sample_piece = ''text''"
    by (simp add: sample_piece_def)
  have 3: "get_chat_messages_with_conversation_id (memory (sample_target\<lparr>model_name := ''gpt-4''\<rparr>))
             (conversation_id sample_piece) (heap sample_world) =
           Inr (1, (heap sample_world)(1 := heap sample_world 0))"
    by (simp add: sample_target_def sample_memory_def)
  have 4: "to_chat_message sample_host sample_piece =
           Inr \<lparr>chat_role = role sample_piece, content = converted_value sample_piece\<rparr>"
    by (simp add: sample_host_def)
  from send_prompt_async_forwards_history [OF 0 1 2 3 4] 0 show ?thesis
    by (simp add: new_calls_def sample_world_def sample_piece_def)
qed

text \<open>
  Claim C7. For a valid single-piece text request, if the generation call raises the
  exception \<open>e\<close>, then \<^verbatim>\<open>send_prompt_async\<close> raises \<open>e\<close> itself, and the generation
  endpoint was called exactly once: nothing is retried, caught, wrapped or changed.
\<close>

theorem send_prompt_async_propagates_failure:
  assumes "request_pieces r = [p]"
    and "converted_value_data_type p = ''text''"
    and "get_chat_messages_with_conversation_id (memory self) (conversation_id p) (heap w) = Inr (a, h)"
    and "to_chat_message H p = Inr m"
    and "generate (unify_client self) (model_name self) (h a @ [m]) = Inl e"
  shows "fst (send_prompt_async H self r w) = Inl e
    \<and> filter is_generate_call (new_calls w (snd (send_prompt_async H self r w))) =
        [UnifyGenerate (model_name self) (h a @ [m])]"
  using assms(5) by (simp add: send_prompt_async_valid [OF assms(1-4)])

theorem send_prompt_async_propagates_failure_witness:
  "fst (send_prompt_async sample_host failing_target \<lparr>request_pieces = [sample_piece]\<rparr>
          sample_world) = Inl (Raised ''connection reset'')
   \<and> length (filter is_generate_call
        (calls (snd (send_prompt_async sample_host failing_target
           \<lparr>request_pieces = [sample_piece]\<rparr> sample_world)))) = 1"
proof -
  have 1: "request_pieces \<lparr>request_pieces = [sample_piece]\<rparr> = [sample_piece]"
    by simp
  have 2: "converted_value_data_type sample_piece = ''text''"
    by (simp add: sample_piece_def)
  have 3: "get_chat_messages_with_conversation_id (memory failing_target)
             (conversation_id sample_piece) (heap sample_world) =
           Inr (1, (heap sample_world)(1 := heap sample_world 0))"
    by (simp add: failing_target_def sample_target_def sample_memory_def)
  have 4: "to_chat_message sample_host sample_piece =
           Inr \<lparr>chat_role = role sample_piece, content = converted_value sample_piece\<rparr>"
    by (simp add: sample_host_def)
  have 5: "generate (unify_client failing_target) (model_name failing_target)
             (((heap sample_world)(1 := heap sample_world 0)) 1 @
              [\<lparr>chat_role = role sample_piece, content = converted_value sample_piece\<rparr>]) =
           Inl (Raised ''connection reset'')"
    by (simp add: failing_target_def failing_client_def)
  from send_prompt_async_propagates_failure [OF 1 2 3 4 5] show ?thesis
    by (simp add: new_calls_def sample_world_def)
qed

text \<open>
  Claim C8. On a valid single-piece text request \<^verbatim>\<open>send_prompt_async\<close> reads the store
  exactly once, for the piece's conversation identifier, and the only change it makes
  to the heap the store left is the append of the new message to the list the store
  returned: every other list is as the store left it, and when the read or the
  construction of the message raises, nothing is appended at all.
\<close>

theorem send_prompt_async_store_frame:
  assumes "request_pieces r = [p]"
    and "converted_value_data_type p = ''text''"
  shows "filter is_memory_call (new_calls w (snd (send_prompt_async H self r w))) =
      [GetChatMessages (conversation_id p)]
    \<and> (case get_chat_messages_with_conversation_id (memory self) (conversation_id p) (heap w) of
         Inl e \<Rightarrow> heap (snd (send_prompt_async H self r w)) = heap w
       | Inr (a, h) \<Rightarrow>
          (case to_chat_message H p of
             Inl e \<Rightarrow> heap (snd (send_prompt_async H self r w)) = h
           | Inr m \<Rightarrow> heap (snd (send_prompt_async H self r w)) = h(a := h a @ [m])))"
proof -
  have v: "validate_request r = Inr ()"
    using assms by (rule validate_request_single_text)
  have i: "item0 (request_pieces r) = Inr p"
    using assms(1) by (simp add: item0_def)
  show ?thesis
    unfolding send_prompt_async_def
    by (simp add: v i Let_def new_calls_def split: sum.splits prod.splits)
qed

theorem send_prompt_async_store_frame_witness:
  "filter is_memory_call
     (calls (snd (send_prompt_async sample_host sample_target
        \<lparr>request_pieces = [sample_piece]\<rparr> sample_world))) = [GetChatMessages ''c1'']
   \<and> heap (snd (send_prompt_async sample_host sample_target
        \<lparr>request_pieces = [sample_piece]\<rparr> sample_world)) 0 =
      [\<lparr>chat_role = ''assistant'', content = ''Hi''\<rparr>]
   \<and> heap (snd (send_prompt_async sample_host sample_target
        \<lparr>request_pieces = [sample_piece]\<rparr> sample_world)) 1 =
      [\<lparr>chat_role = ''assistant'', content = ''Hi''\<rparr>,
       \<lparr>chat_role = ''user'', content = ''Hello''\<rparr>]"
proof -
  have 1: "request_pieces \<lparr>request_pieces = [sample_piece]\<rparr> = [sample_piece]"
    by simp
  have 2: "converted_value_data_type sample_piece = ''text''"
    by (simp add: sample_piece_def)
  have 3: "get_chat_messages_with_conversation_id (memory sample_target)
             (conversation_id sample_piece) (heap sample_world) =
           Inr (1, (heap sample_world)(1 := heap sample_world 0))"
    by (simp add: sample_target_def sample_memory_def)
  have 4: "to_chat_message sample_host sample_piece =
           Inr \<lparr>chat_role = role sample_piece, content = converted_value sample_piece\<rparr>"
    by (simp add: sample_host_def)
  have 5: "calls sample_world = []"
    by (simp add: sample_world_def)
  note frame = send_prompt_async_store_frame [OF 1 2, of sample_world sample_host sample_target]
  from frame have reads:
    "filter is_memory_call
       (calls (snd (send_prompt_async sample_host sample_target
          \<lparr>request_pieces = [sample_piece]\<rparr> sample_world))) =
     [GetChatMessages (conversation_id sample_piece)]"
    by (simp add: new_calls_def 5)
  from frame have lists:
    "heap (snd (send_prompt_async sample_host sample_target
        \<lparr>request_pieces = [sample_piece]\<rparr> sample_world)) =
     ((heap sample_world)(1 := heap sample_world 0))
       (1 := ((heap sample_world)(1 := heap sample_world 0)) 1 @
             [\<lparr>chat_role = role sample_piece, content = converted_value sample_piece\<rparr>])"
    by (simp add: 3 4)
  show ?thesis
    unfolding reads lists
    by (simp add: sample_world_def sample_piece_def)
qed


section \<open>Construction\<close>

lemma py_or_truthy: "truthy a \<Longrightarrow> py_or a b = Inr (the a)"
  by (auto simp: py_or_def truthy_def split: option.splits)

lemma py_or_not_truthy: "\<not> truthy a \<Longrightarrow> py_or a b = b"
  by (auto simp: py_or_def truthy_def split: option.splits)

text \<open>
  Claim C5. Let the base class constructor and the constructor of the Unify client
  return. If the \<^verbatim>\<open>api_key\<close> argument gives no credential (it is left out, or empty) and
  the environment variable \<^verbatim>\<open>UNIFY_API_KEY\<close> gives none either (unset, or empty), then
  construction fails with a \<^verbatim>\<open>ValueError\<close>. If the argument gives a credential, the
  adapter is constructed with it; if only the environment variable gives one, the
  adapter is constructed with that.
\<close>

theorem UnifyChatTarget_init_credential:
  assumes "PromptChatTarget_init H memory_arg = Inr mem"
    and "\<forall>key. \<not> isl (Unify_init H key)"
  shows "(\<not> truthy api_key_arg \<and> \<not> truthy (environ API_KEY_ENVIRONMENT_VARIABLE) \<longrightarrow>
       (\<exists>msg. UnifyChatTarget_init H environ api_key_arg normalizer_arg memory_arg
                 model_name_arg kwargs = Inl (ValueError msg)))
    \<and> (truthy api_key_arg \<longrightarrow>
       (\<exists>self. UnifyChatTarget_init H environ api_key_arg normalizer_arg memory_arg
                 model_name_arg kwargs = Inr self \<and> Some (api_key self) = api_key_arg))
    \<and> (\<not> truthy api_key_arg \<and> truthy (environ API_KEY_ENVIRONMENT_VARIABLE) \<longrightarrow>
       (\<exists>self. UnifyChatTarget_init H environ api_key_arg normalizer_arg memory_arg
                 model_name_arg kwargs = Inr self
              \<and> Some (api_key self) = environ API_KEY_ENVIRONMENT_VARIABLE))"
proof -
  have client: "\<exists>c. Unify_init H key = Inr c" for key
    using assms(2) [rule_format, of key] by (cases "Unify_init H key") simp_all
  have none: "\<exists>msg. UnifyChatTarget_init H environ api_key_arg normalizer_arg memory_arg
                 model_name_arg kwargs = Inl (ValueError msg)"
    if "\<not> truthy api_key_arg" "\<not> truthy (environ API_KEY_ENVIRONMENT_VARIABLE)"
    using that assms(1)
    by (simp add: UnifyChatTarget_init_def get_required_value_def py_or_not_truthy)
  have arg: "\<exists>self. UnifyChatTarget_init H environ api_key_arg normalizer_arg memory_arg
                 model_name_arg kwargs = Inr self \<and> Some (api_key self) = api_key_arg"
    if t: "truthy api_key_arg"
  proof -
    obtain c where c: "Unify_init H (the api_key_arg) = Inr c"
      using client by blast
    from t have s: "Some (the api_key_arg) = api_key_arg"
      by (cases api_key_arg) (simp_all add: truthy_def)
    show ?thesis
      using s by (simp add: UnifyChatTarget_init_def assms(1) py_or_truthy [OF t] c)
  qed
  have env: "\<exists>self. UnifyChatTarget_init H environ api_key_arg normalizer_arg memory_arg
                 model_name_arg kwargs = Inr self
              \<and> Some (api_key self) = environ API_KEY_ENVIRONMENT_VARIABLE"
    if n: "\<not> truthy api_key_arg" and t: "truthy (environ API_KEY_ENVIRONMENT_VARIABLE)"
  proof -
    obtain c where c: "Unify_init H (the (environ API_KEY_ENVIRONMENT_VARIABLE)) = Inr c"
      using client by blast
    from t have s: "Some (the (environ API_KEY_ENVIRONMENT_VARIABLE)) =
        environ API_KEY_ENVIRONMENT_VARIABLE"
      by (cases "environ API_KEY_ENVIRONMENT_VARIABLE") (simp_all add: truthy_def)
    show ?thesis
      using s
      by (simp add: UnifyChatTarget_init_def assms(1) get_required_value_def
          py_or_not_truthy [OF n] py_or_truthy [OF t] c)
  qed
  from none arg env show ?thesis
    by blast
qed

theorem UnifyChatTarget_init_credential_witness:
  "UnifyChatTarget_init sample_host Map.empty None None None None [] =
     Inl (ValueError ''Environment variable UNIFY_API_KEY is required'')
   \<and> map_sum id api_key
       (UnifyChatTarget_init sample_host Map.empty (Some ''k'') None None None []) = Inr ''k''
   \<and> map_sum id api_key
       (UnifyChatTarget_init sample_host [''UNIFY_API_KEY'' \<mapsto> ''e''] None None None None [])
       = Inr ''e''"
proof -
  have base: "PromptChatTarget_init sample_host None = Inr sample_memory"
    by (simp add: sample_host_def)
  have client: "\<forall>key. \<not> isl (Unify_init sample_host key)"
    by (simp add: sample_host_def)
  have no_arg: "\<not> truthy None"
    by (simp add: truthy_def)
  have arg: "truthy (Some ''k'')"
    by (simp add: truthy_def)
  have no_env: "\<not> truthy (Map.empty API_KEY_ENVIRONMENT_VARIABLE)"
    by (simp add: truthy_def)
  have env: "truthy ([''UNIFY_API_KEY'' \<mapsto> ''e''] API_KEY_ENVIRONMENT_VARIABLE)"
    by (simp add: truthy_def API_KEY_ENVIRONMENT_VARIABLE_def)
  have env_val: "[''UNIFY_API_KEY'' \<mapsto> ''e''] API_KEY_ENVIRONMENT_VARIABLE = Some ''e''"
    by (simp add: API_KEY_ENVIRONMENT_VARIABLE_def)
  from UnifyChatTarget_init_credential [OF base client, of None Map.empty None None "[]"]
    no_arg no_env
  obtain msg where a: "UnifyChatTarget_init sample_host Map.empty None None None None [] =
      Inl (ValueError msg)"
    by blast
  have a': "UnifyChatTarget_init sample_host Map.empty None None None None [] =
     Inl (ValueError ''Environment variable UNIFY_API_KEY is required'')"
    by (simp add: UnifyChatTarget_init_def get_required_value_def py_or_def sample_host_def
        API_KEY_ENVIRONMENT_VARIABLE_def)
  from UnifyChatTarget_init_credential [OF base client, of "Some ''k''" Map.empty None None "[]"]
    arg
  have b: "map_sum id api_key
       (UnifyChatTarget_init sample_host Map.empty (Some ''k'') None None None []) = Inr ''k''"
    by auto
  from UnifyChatTarget_init_credential
    [OF base client, of None "[''UNIFY_API_KEY'' \<mapsto> ''e'']" None None "[]"]
    no_arg env env_val
  have c: "map_sum id api_key
       (UnifyChatTarget_init sample_host [''UNIFY_API_KEY'' \<mapsto> ''e''] None None None None [])
       = Inr ''e''"
    by auto
  from a a' b c show ?thesis
    by simp
qed

text \<open>
  Claim C6, as the code has it. The model identifier is optional at construction:
  whether construction succeeds does not depend on the \<^verbatim>\<open>model_name\<close> argument, and a
  constructed adapter holds the identifier the caller supplied, or the default
  \<^verbatim>\<open>gpt-3.5-turbo\<close> when the caller supplied none.
\<close>

theorem UnifyChatTarget_init_model_name_optional:
  "isl (UnifyChatTarget_init H environ api_key_arg normalizer_arg memory_arg model_name_arg kwargs)
     = isl (UnifyChatTarget_init H environ api_key_arg normalizer_arg memory_arg None kwargs)
   \<and> (\<forall>self. UnifyChatTarget_init H environ api_key_arg normalizer_arg memory_arg
                model_name_arg kwargs = Inr self \<longrightarrow>
         model_name self =
           (case model_name_arg of None \<Rightarrow> ''gpt-3.5-turbo'' | Some mn \<Rightarrow> mn))"
  by (auto simp: UnifyChatTarget_init_def split: sum.splits)

theorem UnifyChatTarget_init_model_name_optional_witness:
  "UnifyChatTarget_init sample_host Map.empty (Some ''k'') None None None [] = Inr sample_target
   \<and> model_name sample_target = ''gpt-3.5-turbo''"
proof -
  have built: "UnifyChatTarget_init sample_host Map.empty (Some ''k'') None None None [] =
      Inr sample_target"
    by (simp add: UnifyChatTarget_init_def sample_host_def sample_target_def py_or_def)
  from UnifyChatTarget_init_model_name_optional
    [of sample_host Map.empty "Some ''k''" None None None "[]"] built
  have "model_name sample_target = ''gpt-3.5-turbo''"
    by simp
  with built show ?thesis
    by simp
qed

text \<open>
  Claim C6 as the spec words it fails: with a credential and no model identifier at
  all, construction succeeds, and the adapter holds the default identifier.
\<close>

theorem UnifyChatTarget_init_without_model_name:
  "\<not> isl (UnifyChatTarget_init sample_host Map.empty (Some ''k'') None None None [])
   \<and> map_sum id model_name
       (UnifyChatTarget_init sample_host Map.empty (Some ''k'') None None None []) =
       Inr ''gpt-3.5-turbo''"
  by (simp add: UnifyChatTarget_init_def sample_host_def py_or_def)


end
